theory Spec2Isabelle
  imports Complex_Main
begin

section \<open>The Lorenz (1963) notebook: model\<close>

text \<open>
  The notebook \<^verbatim>\<open>systemLorenz1963.ipynb\<close> is modelled cell by cell. Python floats are
  idealised as the reals of HOL: every arithmetic expression keeps the operators and the
  order of evaluation of the source, and no rounding, overflow or NaN is modelled. The
  numpy arrays are lists of reals, the step count is an \<open>int\<close>, and every exception the
  cells can raise is a value of the type \<open>error\<close>.

  Two things the reals cannot show are modelled beside them. The vector field and the
  Runge-Kutta step have a second embedding, over doubles with the special values of
  IEEE 754, where a product or a sum can overflow to an infinity and \<open>0 * inf\<close> is NaN.
  And the cells in the order of the notebook, with the cell that raises and the number of
  iterations of the loop that were begun, are the function \<open>notebook\<close>.
\<close>

subsection \<open>Exceptions and sequencing\<close>

datatype error = IndexError | ValueError | ZeroDivisionError

text \<open>Sequencing of two computations, the first exception ending the evaluation.\<close>

definition and_then :: "'e + 'a \<Rightarrow> ('a \<Rightarrow> 'e + 'b) \<Rightarrow> 'e + 'b" where
  "and_then m k = (case m of Inl e \<Rightarrow> Inl e | Inr a \<Rightarrow> k a)"

text \<open>
  \<^verbatim>\<open>a[i]\<close> and \<^verbatim>\<open>a[i] = v\<close> for an index \<open>i \<ge> 0\<close> (the notebook never indexes
  with a negative number): out of range, Python and numpy raise \<^verbatim>\<open>IndexError\<close>.
\<close>

definition getitem :: "'a list \<Rightarrow> nat \<Rightarrow> error + 'a" where
  "getitem a i = (if i < length a then Inr (a ! i) else Inl IndexError)"

definition setitem :: "'a list \<Rightarrow> nat \<Rightarrow> 'a \<Rightarrow> error + 'a list" where
  "setitem a i v = (if i < length a then Inr (a[i := v]) else Inl IndexError)"

text \<open>\<^verbatim>\<open>np.zeros(n)\<close>: a negative dimension raises \<^verbatim>\<open>ValueError\<close>.\<close>

definition np_zeros :: "int \<Rightarrow> error + real list" where
  "np_zeros n = (if n < 0 then Inl ValueError else Inr (replicate (nat n) 0))"


text \<open>\<^verbatim>\<open>range(a, b)\<close> for \<open>a \<ge> 0\<close>, and \<^verbatim>\<open>range(b)\<close>; empty when \<open>b \<le> a\<close>.\<close>

definition py_range :: "int \<Rightarrow> int \<Rightarrow> nat list" where
  "py_range a b = [nat a ..< nat b]"

subsection \<open>The vector field\<close>

text \<open>
  \<^verbatim>\<open>
  def systemLorenz1963(xx,yy,zz,params):
      sigmavalue = params[0]
      rvalue     = params[1]
      bvalue     = params[2]
      dxdt = -1*sigmavalue*xx+sigmavalue*yy
      dydt = (rvalue-zz)*xx-yy
      dzdt = xx*yy-bvalue*zz
      return(dxdt,dydt,dzdt)
  \<close>
\<close>

definition systemLorenz1963 ::
  "real \<Rightarrow> real \<Rightarrow> real \<Rightarrow> real list \<Rightarrow> error + (real \<times> real \<times> real)" where
  "systemLorenz1963 xx yy zz params =
     and_then (getitem params 0) (\<lambda>sigmavalue.
     and_then (getitem params 1) (\<lambda>rvalue.
     and_then (getitem params 2) (\<lambda>bvalue.
       let dxdt = - 1 * sigmavalue * xx + sigmavalue * yy;
           dydt = (rvalue - zz) * xx - yy;
           dzdt = xx * yy - bvalue * zz
       in Inr (dxdt, dydt, dzdt))))"

subsection \<open>The Runge-Kutta step\<close>

text \<open>
  \<^verbatim>\<open>
  def rk4_xyz(xx,yy,zz,step,func,params):
      k1x,k1y,k1z = func(xx,yy,zz,params)
      k2x,k2y,k2z = func(xx+step*k1x/2,yy+step*k1y/2,zz+step*k1z/2,params)
      k3x,k3y,k3z = func(xx+step*k2x/2,yy+step*k2y/2,zz+step*k2z/2,params)
      k4x,k4y,k4z = func(xx+step*k3x,yy+step*k3y,zz+step*k3z,params)
      stepx = 1/6*(k1x+2*k2x+2*k3x+k4x)*step
      stepy = 1/6*(k1y+2*k2y+2*k3y+k4y)*step
      stepz = 1/6*(k1z+2*k2z+2*k3z+k4z)*step
      return(stepx,stepy,stepz)
  \<close>
  The derivative function and its parameters are arguments; an exception raised by the
  derivative function ends the step.
\<close>

definition rk4_xyz ::
  "real \<Rightarrow> real \<Rightarrow> real \<Rightarrow> real \<Rightarrow>
   (real \<Rightarrow> real \<Rightarrow> real \<Rightarrow> 'p \<Rightarrow> 'e + (real \<times> real \<times> real)) \<Rightarrow> 'p \<Rightarrow>
   'e + (real \<times> real \<times> real)" where
  "rk4_xyz xx yy zz step func params =
     and_then (func xx yy zz params) (\<lambda>(k1x, k1y, k1z).
     and_then (func (xx + step * k1x / 2) (yy + step * k1y / 2) (zz + step * k1z / 2) params)
       (\<lambda>(k2x, k2y, k2z).
     and_then (func (xx + step * k2x / 2) (yy + step * k2y / 2) (zz + step * k2z / 2) params)
       (\<lambda>(k3x, k3y, k3z).
     and_then (func (xx + step * k3x) (yy + step * k3y) (zz + step * k3z) params)
       (\<lambda>(k4x, k4y, k4z).
       let stepx = 1 / 6 * (k1x + 2 * k2x + 2 * k3x + k4x) * step;
           stepy = 1 / 6 * (k1y + 2 * k2y + 2 * k3y + k4y) * step;
           stepz = 1 / 6 * (k1z + 2 * k2z + 2 * k3z + k4z) * step
       in Inr (stepx, stepy, stepz)))))"

subsection \<open>Configuration, arrays and the time-marching loop\<close>

text \<open>
  The configuration is the set of literals of the cells \<^verbatim>\<open>Time stepping\<close>,
  \<^verbatim>\<open>Parameters\<close> and \<^verbatim>\<open>Initial conditions\<close>.
\<close>

record config =
  deltat :: real
  ntot :: int
  sigma :: real
  smallr :: real
  smallb :: real
  initx :: real
  inity :: real
  initz :: real

record arrays =
  xvalues :: "real list"
  yvalues :: "real list"
  zvalues :: "real list"

text \<open>
  The literals of the notebook:
  \<^verbatim>\<open>
  deltat = 0.01
  ntot   = 6113
  sigma  = 10.0
  smallr = 28.0
  smallb = 8/3
  initx      = 0.0
  inity      = 0.1
  initz      = 0.0
  \<close>
\<close>

definition notebook_config :: config where
  "notebook_config =
     \<lparr>deltat = 1 / 100, ntot = 6113, sigma = 10, smallr = 28, smallb = 8 / 3,
      initx = 0, inity = 1 / 10, initz = 0\<rparr>"

text \<open>
  \<^verbatim>\<open>
  xvalues    = np.zeros(ntot)
  yvalues    = np.zeros(ntot)
  zvalues    = np.zeros(ntot)
  xvalues[0] = initx
  yvalues[0] = inity
  zvalues[0] = initz
  \<close>
\<close>

definition initial_conditions :: "'a config_scheme \<Rightarrow> error + arrays" where
  "initial_conditions c =
     and_then (np_zeros (ntot c)) (\<lambda>xv.
     and_then (np_zeros (ntot c)) (\<lambda>yv.
     and_then (np_zeros (ntot c)) (\<lambda>zv.
     and_then (setitem xv 0 (initx c)) (\<lambda>xv.
     and_then (setitem yv 0 (inity c)) (\<lambda>yv.
     and_then (setitem zv 0 (initz c)) (\<lambda>zv.
       Inr \<lparr>xvalues = xv, yvalues = yv, zvalues = zv\<rparr>))))))"

text \<open>
  The body of the loop, at index \<open>ii\<close>:
  \<^verbatim>\<open>
      stepx,stepy,stepz = rk4_xyz(xvalues[ii],yvalues[ii],zvalues[ii],
                                  step=deltat,func=systemLorenz1963,
                                  params=[sigma,smallr,smallb])
      xvalues[ii+1]=xvalues[ii]+stepx
      yvalues[ii+1]=yvalues[ii]+stepy
      zvalues[ii+1]=zvalues[ii]+stepz
  \<close>
\<close>

definition loop_body :: "'a config_scheme \<Rightarrow> nat \<Rightarrow> arrays \<Rightarrow> error + arrays" where
  "loop_body c ii st =
     and_then (getitem (xvalues st) ii) (\<lambda>x.
     and_then (getitem (yvalues st) ii) (\<lambda>y.
     and_then (getitem (zvalues st) ii) (\<lambda>z.
     and_then (rk4_xyz x y z (deltat c) systemLorenz1963 [sigma c, smallr c, smallb c])
       (\<lambda>(stepx, stepy, stepz).
     and_then (getitem (xvalues st) ii) (\<lambda>x.
     and_then (setitem (xvalues st) (ii + 1) (x + stepx)) (\<lambda>xv.
     and_then (getitem (yvalues st) ii) (\<lambda>y.
     and_then (setitem (yvalues st) (ii + 1) (y + stepy)) (\<lambda>yv.
     and_then (getitem (zvalues st) ii) (\<lambda>z.
     and_then (setitem (zvalues st) (ii + 1) (z + stepz)) (\<lambda>zv.
       Inr \<lparr>xvalues = xv, yvalues = yv, zvalues = zv\<rparr>))))))))))"

text \<open>A \<^verbatim>\<open>for\<close> loop over a list of indices; an exception in the body ends the loop.\<close>

fun for_loop :: "(nat \<Rightarrow> 's \<Rightarrow> 'e + 's) \<Rightarrow> nat list \<Rightarrow> 's \<Rightarrow> 'e + 's" where
  "for_loop body [] st = Inr st"
| "for_loop body (ii # iis) st = and_then (body ii st) (for_loop body iis)"

text \<open>
  The cells \<^verbatim>\<open>Initial conditions\<close> and \<^verbatim>\<open>Loop\<close> in sequence, the loop being
  \<^verbatim>\<open>for ii in range(ntot-1)\<close>.
\<close>

definition simulate :: "'a config_scheme \<Rightarrow> error + arrays" where
  "simulate c =
     and_then (initial_conditions c) (for_loop (loop_body c) (py_range 0 (ntot c - 1)))"

text \<open>
  The same two cells with the loop stopped after its first \<open>k\<close> iterations: the arrays
  as they are at that moment of the run.
\<close>

definition simulate_upto :: "'a config_scheme \<Rightarrow> nat \<Rightarrow> error + arrays" where
  "simulate_upto c k =
     and_then (initial_conditions c)
       (for_loop (loop_body c) (take k (py_range 0 (ntot c - 1))))"

subsection \<open>The cells in the order of the notebook\<close>


text \<open>
  A run of the notebook from its first cell. An exception ends the run in the cell that
  raises it, as the traceback shows; the run also records how many iterations of the loop
  were begun, each of them one call of \<open>rk4_xyz\<close>.
\<close>

datatype cell = Time_stepping | Initial_conditions | Loop

record run =
  iterations :: nat
  outcome :: "(cell \<times> error) + arrays"



subsection \<open>The vector field and the Runge-Kutta step over doubles\<close>

text \<open>
  A double is a finite number, an infinity or NaN. Finite results are exact: rounding to
  53 bits is not modelled, and the two zeros are one. A finite result whose magnitude
  reaches \<open>2^1024 - 2^970\<close>, from where IEEE 754 rounds to an infinity, overflows. The
  infinities and NaN combine as IEEE 754 has it: \<open>inf - inf\<close>, \<open>0 * inf\<close> and
  \<open>inf / inf\<close> are NaN, and NaN absorbs.
\<close>

datatype double = Num real | PosInf | NegInf | NaN

definition overflow_bound :: real where
  "overflow_bound = 2 ^ 1024 - 2 ^ 970"

definition to_double :: "real \<Rightarrow> double" where
  "to_double r =
     (if overflow_bound \<le> r then PosInf
      else if r \<le> - overflow_bound then NegInf
      else Num r)"

fun dadd :: "double \<Rightarrow> double \<Rightarrow> double" where
  "dadd NaN y = NaN"
| "dadd x NaN = NaN"
| "dadd (Num a) (Num b) = to_double (a + b)"
| "dadd PosInf NegInf = NaN"
| "dadd NegInf PosInf = NaN"
| "dadd PosInf y = PosInf"
| "dadd x PosInf = PosInf"
| "dadd NegInf y = NegInf"
| "dadd x NegInf = NegInf"

fun dneg :: "double \<Rightarrow> double" where
  "dneg (Num a) = Num (- a)"
| "dneg PosInf = NegInf"
| "dneg NegInf = PosInf"
| "dneg NaN = NaN"

definition dsub :: "double \<Rightarrow> double \<Rightarrow> double" where
  "dsub x y = dadd x (dneg y)"

fun dmul :: "double \<Rightarrow> double \<Rightarrow> double" where
  "dmul NaN y = NaN"
| "dmul x NaN = NaN"
| "dmul (Num a) (Num b) = to_double (a * b)"
| "dmul (Num a) PosInf = (if a = 0 then NaN else if 0 < a then PosInf else NegInf)"
| "dmul (Num a) NegInf = (if a = 0 then NaN else if 0 < a then NegInf else PosInf)"
| "dmul PosInf (Num b) = (if b = 0 then NaN else if 0 < b then PosInf else NegInf)"
| "dmul NegInf (Num b) = (if b = 0 then NaN else if 0 < b then NegInf else PosInf)"
| "dmul PosInf PosInf = PosInf"
| "dmul PosInf NegInf = NegInf"
| "dmul NegInf PosInf = NegInf"
| "dmul NegInf NegInf = PosInf"

text \<open>
  The notebook divides by the literals \<open>2\<close> and \<open>6\<close> only; a zero divisor is given the
  result of IEEE 754 and is not reached.
\<close>

fun ddiv :: "double \<Rightarrow> double \<Rightarrow> double" where
  "ddiv NaN y = NaN"
| "ddiv x NaN = NaN"
| "ddiv (Num a) (Num b) =
     (if b = 0 then (if a = 0 then NaN else if 0 < a then PosInf else NegInf)
      else to_double (a / b))"
| "ddiv (Num a) y = Num 0"
| "ddiv PosInf (Num b) = (if 0 \<le> b then PosInf else NegInf)"
| "ddiv NegInf (Num b) = (if 0 \<le> b then NegInf else PosInf)"
| "ddiv x y = NaN"

text \<open>
  \<open>systemLorenz1963\<close> and \<open>rk4_xyz\<close> again, operator for operator, on doubles.
\<close>

definition systemLorenz1963_d ::
  "double \<Rightarrow> double \<Rightarrow> double \<Rightarrow> double list \<Rightarrow> error + (double \<times> double \<times> double)" where
  "systemLorenz1963_d xx yy zz params =
     and_then (getitem params 0) (\<lambda>sigmavalue.
     and_then (getitem params 1) (\<lambda>rvalue.
     and_then (getitem params 2) (\<lambda>bvalue.
       let dxdt = dadd (dmul (dmul (Num (- 1)) sigmavalue) xx) (dmul sigmavalue yy);
           dydt = dsub (dmul (dsub rvalue zz) xx) yy;
           dzdt = dsub (dmul xx yy) (dmul bvalue zz)
       in Inr (dxdt, dydt, dzdt))))"

definition rk4_xyz_d ::
  "double \<Rightarrow> double \<Rightarrow> double \<Rightarrow> double \<Rightarrow>
   (double \<Rightarrow> double \<Rightarrow> double \<Rightarrow> 'p \<Rightarrow> 'e + (double \<times> double \<times> double)) \<Rightarrow> 'p \<Rightarrow>
   'e + (double \<times> double \<times> double)" where
  "rk4_xyz_d xx yy zz step func params =
     and_then (func xx yy zz params) (\<lambda>(k1x, k1y, k1z).
     and_then (func (dadd xx (ddiv (dmul step k1x) (Num 2)))
                    (dadd yy (ddiv (dmul step k1y) (Num 2)))
                    (dadd zz (ddiv (dmul step k1z) (Num 2))) params)
       (\<lambda>(k2x, k2y, k2z).
     and_then (func (dadd xx (ddiv (dmul step k2x) (Num 2)))
                    (dadd yy (ddiv (dmul step k2y) (Num 2)))
                    (dadd zz (ddiv (dmul step k2z) (Num 2))) params)
       (\<lambda>(k3x, k3y, k3z).
     and_then (func (dadd xx (dmul step k3x)) (dadd yy (dmul step k3y))
                    (dadd zz (dmul step k3z)) params)
       (\<lambda>(k4x, k4y, k4z).
       let stepx = dmul (dmul (ddiv (Num 1) (Num 6))
                     (dadd (dadd (dadd k1x (dmul (Num 2) k2x)) (dmul (Num 2) k3x)) k4x)) step;
           stepy = dmul (dmul (ddiv (Num 1) (Num 6))
                     (dadd (dadd (dadd k1y (dmul (Num 2) k2y)) (dmul (Num 2) k3y)) k4y)) step;
           stepz = dmul (dmul (ddiv (Num 1) (Num 6))
                     (dadd (dadd (dadd k1z (dmul (Num 2) k2z)) (dmul (Num 2) k3z)) k4z)) step
       in Inr (stepx, stepy, stepz)))))"

subsection \<open>Relative maxima\<close>

text \<open>
  \<^verbatim>\<open>
  relMaxZ = [zvalues[ii] for ii in range(1,ntot-1)
             if(zvalues[ii]>zvalues[ii-1] and zvalues[ii]>zvalues[ii+1])]
  \<close>
  The comprehension over a list of indices; \<^verbatim>\<open>and\<close> evaluates its second operand
  only when the first is true. The array \<^verbatim>\<open>zvalues\<close> is the argument \<open>zv\<close>.
\<close>

fun relMaxZ_over :: "nat list \<Rightarrow> real list \<Rightarrow> error + real list" where
  "relMaxZ_over [] zv = Inr []"
| "relMaxZ_over (ii # iis) zv =
     and_then (getitem zv ii) (\<lambda>a.
     and_then (getitem zv (ii - 1)) (\<lambda>b.
     and_then (if a > b
               then and_then (getitem zv ii) (\<lambda>a'.
                    and_then (getitem zv (ii + 1)) (\<lambda>c. Inr (a' > c)))
               else Inr False) (\<lambda>keep.
     and_then (if keep then and_then (getitem zv ii) (\<lambda>v. Inr [v]) else Inr []) (\<lambda>vs.
     and_then (relMaxZ_over iis zv) (\<lambda>rest. Inr (vs @ rest))))))"

definition relMaxZ :: "int \<Rightarrow> real list \<Rightarrow> error + real list" where
  "relMaxZ n zv = relMaxZ_over (py_range 1 (n - 1)) zv"

subsection \<open>Reference definitions\<close>

text \<open>
  The classic Runge-Kutta scheme of the specification, for a derivative function \<open>f\<close> on
  triples and a step \<open>h\<close>, written with the componentwise vector operations.
\<close>

definition vadd :: "real \<times> real \<times> real \<Rightarrow> real \<times> real \<times> real \<Rightarrow> real \<times> real \<times> real" where
  "vadd u v = (case u of (a, b, c) \<Rightarrow> case v of (a', b', c') \<Rightarrow> (a + a', b + b', c + c'))"

definition vscale :: "real \<Rightarrow> real \<times> real \<times> real \<Rightarrow> real \<times> real \<times> real" where
  "vscale s v = (case v of (a, b, c) \<Rightarrow> (s * a, s * b, s * c))"

definition classic_rk4 ::
  "(real \<times> real \<times> real \<Rightarrow> real \<times> real \<times> real) \<Rightarrow> real \<Rightarrow> real \<times> real \<times> real \<Rightarrow>
   real \<times> real \<times> real" where
  "classic_rk4 f h S =
     (let k1 = f S;
          k2 = f (vadd S (vscale (h / 2) k1));
          k3 = f (vadd S (vscale (h / 2) k2));
          k4 = f (vadd S (vscale h k3))
      in vscale (h / 6) (vadd k1 (vadd (vscale 2 k2) (vadd (vscale 2 k3) k4))))"

text \<open>
  The Lorenz equations on triples, one Runge-Kutta step of a configuration from a state,
  and the sequence of states it generates from the initial state.
\<close>

definition lorenz_field :: "real \<times> real \<times> real \<Rightarrow> real \<times> real \<times> real \<Rightarrow> real \<times> real \<times> real" where
  "lorenz_field P S =
     (case P of (s, r, b) \<Rightarrow> case S of (x, y, z) \<Rightarrow>
        (- s * x + s * y, (r - z) * x - y, x * y - b * z))"

definition next_state :: "'a config_scheme \<Rightarrow> real \<times> real \<times> real \<Rightarrow> real \<times> real \<times> real" where
  "next_state c S =
     vadd S (classic_rk4 (lorenz_field (sigma c, smallr c, smallb c)) (deltat c) S)"

fun orbit :: "'a config_scheme \<Rightarrow> nat \<Rightarrow> real \<times> real \<times> real" where
  "orbit c 0 = (initx c, inity c, initz c)"
| "orbit c (Suc n) = next_state c (orbit c n)"

text \<open>Entry \<open>i\<close> of the three arrays, as a state.\<close>

definition entry :: "arrays \<Rightarrow> nat \<Rightarrow> real \<times> real \<times> real" where
  "entry st i = (xvalues st ! i, yvalues st ! i, zvalues st ! i)"

text \<open>
  The arrays have the configured length and their entries up to index \<open>k\<close> are the
  states generated from the initial state.
\<close>

definition tracks :: "'a config_scheme \<Rightarrow> nat \<Rightarrow> arrays \<Rightarrow> bool" where
  "tracks c k st \<longleftrightarrow>
     length (xvalues st) = nat (ntot c) \<and> length (yvalues st) = nat (ntot c) \<and>
     length (zvalues st) = nat (ntot c) \<and> (\<forall>i\<le>k. entry st i = orbit c i)"

text \<open>The three arrays filled with the first \<open>ntot\<close> states of the sequence.\<close>

definition trajectory :: "'a config_scheme \<Rightarrow> arrays" where
  "trajectory c =
     \<lparr>xvalues = map (\<lambda>i. fst (orbit c i)) [0 ..< nat (ntot c)],
      yvalues = map (\<lambda>i. fst (snd (orbit c i))) [0 ..< nat (ntot c)],
      zvalues = map (\<lambda>i. snd (snd (orbit c i))) [0 ..< nat (ntot c)]\<rparr>"

text \<open>
  The mirror image \<open>(x, y, z) \<mapsto> (-x, -y, z)\<close> of a state, of a configuration's initial
  state and of a trajectory.
\<close>

definition mirror :: "real \<times> real \<times> real \<Rightarrow> real \<times> real \<times> real" where
  "mirror S = (case S of (x, y, z) \<Rightarrow> (- x, - y, z))"

definition mirror_config :: "'a config_scheme \<Rightarrow> 'a config_scheme" where
  "mirror_config c = c\<lparr>initx := - initx c, inity := - inity c\<rparr>"

definition mirror_arrays :: "arrays \<Rightarrow> arrays" where
  "mirror_arrays st =
     \<lparr>xvalues = map uminus (xvalues st), yvalues = map uminus (yvalues st),
      zvalues = zvalues st\<rparr>"

text \<open>
  The strict interior local maxima of a sequence, in the words of the specification:
  the values at the interior indices that exceed both neighbours, by ascending index.
\<close>

definition strict_local_maxima :: "real list \<Rightarrow> real list" where
  "strict_local_maxima V =
     map (\<lambda>i. V ! i)
       (filter (\<lambda>i. V ! i > V ! (i - 1) \<and> V ! i > V ! (i + 1)) [1 ..< length V - 1])"

section \<open>Basic facts\<close>

lemma and_then_Inr [simp]: "and_then (Inr a) k = k a"
  by (simp add: and_then_def)

lemma and_then_Inl [simp]: "and_then (Inl e) k = Inl e"
  by (simp add: and_then_def)

lemma getitem_in_range [simp]: "i < length a \<Longrightarrow> getitem a i = Inr (a ! i)"
  by (simp add: getitem_def)

lemma setitem_in_range [simp]: "i < length a \<Longrightarrow> setitem a i v = Inr (a[i := v])"
  by (simp add: setitem_def)

lemma systemLorenz1963_triple:
  "systemLorenz1963 xx yy zz [s, r, b] =
     Inr (- s * xx + s * yy, (r - zz) * xx - yy, xx * yy - b * zz)"
  by (simp add: systemLorenz1963_def)

lemma for_loop_append:
  "for_loop body (as @ bs) st = and_then (for_loop body as st) (for_loop body bs)"
  by (induction as arbitrary: st) (auto simp: and_then_def split: sum.splits)

lemma rk4_lorenz:
  "rk4_xyz x y z h systemLorenz1963 [s, r, b]
     = Inr (classic_rk4 (lorenz_field (s, r, b)) h (x, y, z))"
  by (simp add: rk4_xyz_def systemLorenz1963_triple classic_rk4_def lorenz_field_def
      vadd_def vscale_def Let_def)

section \<open>The time-marching loop\<close>

subsection \<open>One cell at a time\<close>

lemma initial_conditions_negative: "ntot c < 0 \<Longrightarrow> initial_conditions c = Inl ValueError"
  by (simp add: initial_conditions_def np_zeros_def)

lemma initial_conditions_empty: "ntot c = 0 \<Longrightarrow> initial_conditions c = Inl IndexError"
  by (simp add: initial_conditions_def np_zeros_def setitem_def)

lemma initial_conditions_eq:
  assumes "1 \<le> ntot c"
  shows "initial_conditions c =
    Inr \<lparr>xvalues = (replicate (nat (ntot c)) 0)[0 := initx c],
         yvalues = (replicate (nat (ntot c)) 0)[0 := inity c],
         zvalues = (replicate (nat (ntot c)) 0)[0 := initz c]\<rparr>"
  using assms by (simp add: initial_conditions_def np_zeros_def)

lemma initial_conditions_tracks:
  assumes "1 \<le> ntot c"
  shows "\<exists>st. initial_conditions c = Inr st \<and> tracks c 0 st"
  using assms by (simp add: initial_conditions_eq tracks_def entry_def)

lemma loop_body_eq:
  assumes "Suc ii < length (xvalues st)" "Suc ii < length (yvalues st)"
    "Suc ii < length (zvalues st)"
  shows "loop_body c ii st =
    Inr \<lparr>xvalues = (xvalues st)[Suc ii := fst (next_state c (entry st ii))],
         yvalues = (yvalues st)[Suc ii := fst (snd (next_state c (entry st ii)))],
         zvalues = (zvalues st)[Suc ii := snd (snd (next_state c (entry st ii)))]\<rparr>"
  using assms
  by (simp add: loop_body_def rk4_lorenz next_state_def entry_def vadd_def split: prod.splits)

text \<open>
  An iteration extends the tracked prefix by one entry and leaves the entries written
  before as they are.
\<close>

lemma loop_body_tracks:
  assumes "tracks c k st" "Suc k < nat (ntot c)"
  shows "\<exists>st'. loop_body c k st = Inr st' \<and> tracks c (Suc k) st'"
proof -
  from assms have len: "Suc k < length (xvalues st)" "Suc k < length (yvalues st)"
      "Suc k < length (zvalues st)"
    by (simp_all add: tracks_def)
  have ek: "entry st k = orbit c k"
    using assms(1) by (simp add: tracks_def)
  show ?thesis
    using assms len by (auto simp add: loop_body_eq [OF len] tracks_def entry_def ek le_Suc_eq)
qed

subsection \<open>The loop\<close>

lemma for_loop_tracks:
  assumes "tracks c 0 st0"
  shows "k < nat (ntot c) \<Longrightarrow> \<exists>st. for_loop (loop_body c) [0 ..< k] st0 = Inr st \<and> tracks c k st"
proof (induction k)
  case 0
  with assms show ?case by simp
next
  case (Suc k)
  then obtain st where st: "for_loop (loop_body c) [0 ..< k] st0 = Inr st" "tracks c k st"
    by auto
  from loop_body_tracks [OF st(2) Suc.prems]
  obtain st' where "loop_body c k st = Inr st'" "tracks c (Suc k) st'"
    by blast
  with st(1) show ?case
    by (simp add: for_loop_append)
qed

lemma simulate_upto_tracks:
  assumes "1 \<le> ntot c" "k \<le> nat (ntot c) - 1"
  shows "\<exists>st. simulate_upto c k = Inr st \<and> tracks c k st"
proof -
  from initial_conditions_tracks [OF assms(1)]
  obtain st0 where st0: "initial_conditions c = Inr st0" "tracks c 0 st0"
    by blast
  have k: "k < nat (ntot c)"
    using assms by linarith
  have "take k (py_range 0 (ntot c - 1)) = [0 ..< k]"
    using assms by (simp add: py_range_def take_upt nat_diff_distrib)
  with for_loop_tracks [OF st0(2) k] st0(1) show ?thesis
    by (simp add: simulate_upto_def)
qed

lemma simulate_upto_all: "simulate c = simulate_upto c (nat (ntot c) - 1)"
  by (simp add: simulate_def simulate_upto_def py_range_def nat_diff_distrib')

text \<open>Arrays that track the whole sequence are determined by it.\<close>

lemma tracks_trajectory:
  assumes "tracks c (nat (ntot c) - 1) st"
  shows "st = trajectory c"
proof -
  have len: "length (xvalues st) = nat (ntot c)" "length (yvalues st) = nat (ntot c)"
    "length (zvalues st) = nat (ntot c)"
    using assms by (simp_all add: tracks_def)
  have e: "orbit c i = entry st i" if "i < nat (ntot c)" for i
  proof -
    from that have "i \<le> nat (ntot c) - 1"
      by linarith
    with assms show ?thesis
      by (simp add: tracks_def)
  qed
  have "xvalues st = xvalues (trajectory c)"
    by (rule nth_equalityI) (simp_all add: len trajectory_def e entry_def)
  moreover have "yvalues st = yvalues (trajectory c)"
    by (rule nth_equalityI) (simp_all add: len trajectory_def e entry_def)
  moreover have "zvalues st = zvalues (trajectory c)"
    by (rule nth_equalityI) (simp_all add: len trajectory_def e entry_def)
  ultimately show ?thesis
    by simp
qed

lemma simulate_eq:
  "simulate c =
     (if ntot c < 0 then Inl ValueError
      else if ntot c = 0 then Inl IndexError
      else Inr (trajectory c))"
proof -
  have "simulate c = Inr (trajectory c)" if "1 \<le> ntot c"
  proof -
    from simulate_upto_tracks [OF that, of "nat (ntot c) - 1"]
    obtain st where "simulate_upto c (nat (ntot c) - 1) = Inr st"
      "tracks c (nat (ntot c) - 1) st"
      by auto
    then show ?thesis
      by (simp add: simulate_upto_all tracks_trajectory)
  qed
  then show ?thesis
    by (auto simp: simulate_def initial_conditions_negative initial_conditions_empty)
qed

lemma entry_trajectory: "i < nat (ntot c) \<Longrightarrow> entry (trajectory c) i = orbit c i"
  by (simp add: entry_def trajectory_def)

lemma length_trajectory:
  "length (xvalues (trajectory c)) = nat (ntot c)"
  "length (yvalues (trajectory c)) = nat (ntot c)"
  "length (zvalues (trajectory c)) = nat (ntot c)"
  by (simp_all add: trajectory_def)

subsection \<open>Mirror symmetry of the generated sequence\<close>

lemma vadd_mirror: "vadd (mirror u) (mirror v) = mirror (vadd u v)"
  by (simp add: vadd_def mirror_def split: prod.splits)

lemma vscale_mirror: "vscale s (mirror v) = mirror (vscale s v)"
  by (simp add: vscale_def mirror_def split: prod.splits)

lemma lorenz_field_mirror: "lorenz_field P (mirror S) = mirror (lorenz_field P S)"
  by (simp add: lorenz_field_def mirror_def split: prod.splits)

lemma classic_rk4_mirror:
  assumes "\<And>S. f (mirror S) = mirror (f S)"
  shows "classic_rk4 f h (mirror S) = mirror (classic_rk4 f h S)"
  by (simp add: classic_rk4_def Let_def assms vadd_mirror vscale_mirror)

lemma next_state_mirror: "next_state (mirror_config c) (mirror S) = mirror (next_state c S)"
  by (simp add: next_state_def mirror_config_def classic_rk4_mirror lorenz_field_mirror
      vadd_mirror)

lemma orbit_mirror: "orbit (mirror_config c) n = mirror (orbit c n)"
proof (induction n)
  case 0
  show ?case by (simp add: mirror_config_def mirror_def)
next
  case (Suc n)
  then show ?case by (simp add: next_state_mirror)
qed

lemma trajectory_mirror: "trajectory (mirror_config c) = mirror_arrays (trajectory c)"
proof -
  have n: "ntot (mirror_config c) = ntot c"
    by (simp add: mirror_config_def)
  have "fst (mirror S) = - fst S" "fst (snd (mirror S)) = - fst (snd S)"
    "snd (snd (mirror S)) = snd (snd S)" for S
    by (simp_all add: mirror_def split: prod.splits)
  then show ?thesis
    by (simp add: trajectory_def mirror_arrays_def orbit_mirror n o_def)
qed

subsection \<open>The comprehension of the relative maxima\<close>

lemma relMaxZ_over_interior:
  assumes "\<And>ii. ii \<in> set iis \<Longrightarrow> Suc ii < length V"
  shows "relMaxZ_over iis V =
    Inr (map (\<lambda>i. V ! i) (filter (\<lambda>i. V ! i > V ! (i - 1) \<and> V ! i > V ! (i + 1)) iis))"
  using assms
proof (induction iis)
  case Nil
  show ?case by simp
next
  case (Cons ii iis)
  have "Suc ii < length V"
    using Cons.prems [of ii] by simp
  then have ii: "ii + 1 < length V" "ii < length V" "ii - 1 < length V"
    by simp_all
  have rest: "relMaxZ_over iis V =
    Inr (map (\<lambda>i. V ! i) (filter (\<lambda>i. V ! i > V ! (i - 1) \<and> V ! i > V ! (i + 1)) iis))"
    using Cons.IH Cons.prems by simp
  show ?case
    by (simp add: getitem_def ii rest del: One_nat_def)
qed

lemma relMaxZ_eq: "relMaxZ (int (length V)) V = Inr (strict_local_maxima V)"
proof -
  have "py_range 1 (int (length V) - 1) = [1 ..< length V - 1]"
    by (simp add: py_range_def nat_diff_distrib')
  moreover have "relMaxZ_over [1 ..< length V - 1] V = Inr (strict_local_maxima V)"
    unfolding strict_local_maxima_def by (rule relMaxZ_over_interior) auto
  ultimately show ?thesis
    by (simp only: relMaxZ_def)
qed

section \<open>The notebook from its first cell\<close>





section \<open>Arithmetic on doubles\<close>

lemma overflow_bound_gt_100: "100 < overflow_bound"
  by (simp add: overflow_bound_def)

lemma overflow_bound_gt_1: "1 < overflow_bound"
  using overflow_bound_gt_100 by simp

lemma to_double_Num: "\<bar>r\<bar> < overflow_bound \<Longrightarrow> to_double r = Num r"
  by (auto simp: to_double_def)

lemma to_double_0 [simp]: "to_double 0 = Num 0"
  using overflow_bound_gt_1 by (simp add: to_double_def)

lemma weighted_sum_zero_step:
  assumes "6 * \<bar>k\<bar> < overflow_bound"
  shows "dmul (dmul (ddiv (Num 1) (Num 6))
           (dadd (dadd (dadd (Num k) (dmul (Num 2) (Num k))) (dmul (Num 2) (Num k))) (Num k)))
           (Num 0) = Num 0"
proof -
  have "\<bar>2 * k\<bar> < overflow_bound" "\<bar>k + 2 * k\<bar> < overflow_bound"
    "\<bar>k + 2 * k + 2 * k\<bar> < overflow_bound" "\<bar>k + 2 * k + 2 * k + k\<bar> < overflow_bound"
    "\<bar>1 / 6 * (k + 2 * k + 2 * k + k)\<bar> < overflow_bound" "\<bar>1 / 6 :: real\<bar> < overflow_bound"
    using assms overflow_bound_gt_1 by (simp_all add: abs_if split: if_splits)
  then show ?thesis
    by (simp add: to_double_Num)
qed

lemma stage_zero_step:
  assumes "\<bar>a\<bar> < overflow_bound"
  shows "dadd (Num a) (ddiv (dmul (Num 0) (Num k)) (Num 2)) = Num a"
    and "dadd (Num a) (dmul (Num 0) (Num k)) = Num a"
  using assms by (simp_all add: to_double_Num)

subsection \<open>The field where a product overflows\<close>

lemma big_facts:
  "overflow_bound \<le> (2 ^ 600) * (2 ^ 600)"
  "\<not> overflow_bound \<le> 2 ^ 600" "\<not> 2 ^ 600 \<le> - overflow_bound"
  "\<not> overflow_bound \<le> 10 * 2 ^ 600" "\<not> 10 * 2 ^ 600 \<le> - overflow_bound"
  "\<not> overflow_bound \<le> - (10 * 2 ^ 600)" "\<not> - (10 * 2 ^ 600) \<le> - overflow_bound"
  "\<not> overflow_bound \<le> 28 * 2 ^ 600" "\<not> 28 * 2 ^ 600 \<le> - overflow_bound"
  "\<not> overflow_bound \<le> 27 * 2 ^ 600" "\<not> 27 * 2 ^ 600 \<le> - overflow_bound"
  by (simp_all add: overflow_bound_def)

lemma field_at_big:
  "systemLorenz1963_d (Num (2 ^ 600)) (Num (2 ^ 600)) (Num 0) [Num 10, Num 28, Num (8 / 3)]
     = Inr (Num 0, Num (27 * 2 ^ 600), PosInf)"
proof -
  have "dadd (dmul (dmul (Num (- 1)) (Num 10)) (Num (2 ^ 600))) (dmul (Num 10) (Num (2 ^ 600)))
      = Num 0"
    using overflow_bound_gt_100 big_facts by (simp add: to_double_def)
  moreover have "dsub (dmul (dsub (Num 28) (Num 0)) (Num (2 ^ 600))) (Num (2 ^ 600))
      = Num (27 * 2 ^ 600)"
    using overflow_bound_gt_100 big_facts by (simp add: to_double_def dsub_def)
  moreover have "dsub (dmul (Num (2 ^ 600)) (Num (2 ^ 600))) (dmul (Num (8 / 3)) (Num 0))
      = PosInf"
    using overflow_bound_gt_100 big_facts by (simp add: to_double_def dsub_def)
  ultimately show ?thesis
    by (simp add: systemLorenz1963_d_def getitem_def
        del: dadd.simps dmul.simps dneg.simps power_numeral)
qed


lemma NaN_absorbs [simp]:
  "dadd NaN y = NaN" "dadd x NaN = NaN" "dmul NaN y = NaN" "dmul x NaN = NaN"
  "ddiv NaN y = NaN" "ddiv x NaN = NaN" "dsub NaN y = NaN" "dsub x NaN = NaN"
  by (cases x; cases y; simp add: dsub_def)+

lemma field_after_overflow:
  "systemLorenz1963_d (Num (2 ^ 600)) (Num (2 ^ 600)) NaN [Num 10, Num 28, Num (8 / 3)]
     = Inr (Num 0, NaN, NaN)"
  "systemLorenz1963_d (Num (2 ^ 600)) NaN NaN [Num 10, Num 28, Num (8 / 3)]
     = Inr (NaN, NaN, NaN)"
  "systemLorenz1963_d NaN NaN NaN [Num 10, Num 28, Num (8 / 3)] = Inr (NaN, NaN, NaN)"
proof -
  have "dadd (dmul (dmul (Num (- 1)) (Num 10)) (Num (2 ^ 600))) (dmul (Num 10) (Num (2 ^ 600)))
      = Num 0"
    using overflow_bound_gt_100 big_facts by (simp add: to_double_def)
  then show "systemLorenz1963_d (Num (2 ^ 600)) (Num (2 ^ 600)) NaN
      [Num 10, Num 28, Num (8 / 3)] = Inr (Num 0, NaN, NaN)"
    by (simp del: dadd.simps dmul.simps dneg.simps power_numeral
        add: systemLorenz1963_d_def getitem_def NaN_absorbs)
  show "systemLorenz1963_d (Num (2 ^ 600)) NaN NaN [Num 10, Num 28, Num (8 / 3)]
      = Inr (NaN, NaN, NaN)"
    by (simp del: dadd.simps dmul.simps dneg.simps power_numeral
        add: systemLorenz1963_d_def getitem_def NaN_absorbs)
  show "systemLorenz1963_d NaN NaN NaN [Num 10, Num 28, Num (8 / 3)] = Inr (NaN, NaN, NaN)"
    by (simp add: systemLorenz1963_d_def getitem_def)
qed

section \<open>The vector field and the Runge-Kutta step\<close>

text \<open>
  C2 (as the code has it). For every state \<open>(x, y, z)\<close> and every parameter triple
  \<open>(\<sigma>, r, b)\<close> the vector field returns the derivative triple
  \<open>(-\<sigma>x + \<sigma>y, (r - z)x - y, xy - bz)\<close>; at state \<open>(0, 1, 0)\<close> with parameters
  \<open>(10, 28, 8/3)\<close> it returns \<open>(10, -1, 0)\<close>.
\<close>

theorem systemLorenz1963_closed_form:
  "systemLorenz1963 x y z [\<sigma>, r, b] = Inr (- \<sigma> * x + \<sigma> * y, (r - z) * x - y, x * y - b * z)
   \<and> systemLorenz1963 0 1 0 [10, 28, 8 / 3] = Inr (10, - 1, 0)"
  by (simp add: systemLorenz1963_def)

text \<open>
  C2 as the specification words it gives \<open>(10, 0, 0)\<close> at state \<open>(0, 1, 0)\<close> with
  parameters \<open>(10, 28, 8/3)\<close>. The second component there is \<open>(28 - 0) * 0 - 1 = -1\<close>.
\<close>

theorem systemLorenz1963_example_counterexample:
  "systemLorenz1963 0 1 0 [10, 28, 8 / 3] \<noteq> Inr (10, 0, 0)"
  by (simp add: systemLorenz1963_def)


text \<open>
  Over the reals, where no value is out of range, the step of size \<open>0\<close> is the zero
  increment whatever the derivative function is.
\<close>

lemma rk4_xyz_zero_step_reals:
  "rk4_xyz x y z 0 (\<lambda>a b c p. Inr (f a b c p)) P = Inr (0, 0, 0)"
  by (simp add: rk4_xyz_def Let_def split: prod.splits)

text \<open>
  C7 (as the code has it). On doubles, for every finite state, every parameter value and
  every derivative function whose value at the state is finite, with six times each of
  its components below the overflow bound, so that the sum \<open>k1 + 2 k2 + 2 k3 + k4\<close> does
  not overflow: the Runge-Kutta step with step size \<open>0\<close> returns the zero increment.
\<close>

theorem rk4_xyz_d_zero_step:
  assumes "func (Num a) (Num b) (Num c) P = Inr (Num ka, Num kb, Num kc)"
    and "\<bar>a\<bar> < overflow_bound" and "\<bar>b\<bar> < overflow_bound" and "\<bar>c\<bar> < overflow_bound"
    and "6 * \<bar>ka\<bar> < overflow_bound" and "6 * \<bar>kb\<bar> < overflow_bound"
    and "6 * \<bar>kc\<bar> < overflow_bound"
  shows "rk4_xyz_d (Num a) (Num b) (Num c) (Num 0) func P = Inr (Num 0, Num 0, Num 0)"
  using assms(1)
  by (simp add: rk4_xyz_d_def stage_zero_step assms(2-4) weighted_sum_zero_step assms(5-7)
      del: dadd.simps dmul.simps ddiv.simps)

theorem rk4_xyz_d_zero_step_witness:
  "rk4_xyz_d (Num 0) (Num (1 / 10)) (Num 0) (Num 0) systemLorenz1963_d
     [Num 10, Num 28, Num (8 / 3)] = Inr (Num 0, Num 0, Num 0)"
proof -
  have b: "- overflow_bound < 0" "- overflow_bound < 1" "- overflow_bound < 10"
    "- overflow_bound < 28" "- overflow_bound < - (1 / 10)" "- overflow_bound < - 1"
    "- overflow_bound < - 10" "10 < overflow_bound" "28 < overflow_bound"
    using overflow_bound_gt_100 by simp_all
  have f: "systemLorenz1963_d (Num 0) (Num (1 / 10)) (Num 0) [Num 10, Num 28, Num (8 / 3)]
      = Inr (Num 1, Num (- (1 / 10)), Num 0)"
    using overflow_bound_gt_1 b
    by (simp add: systemLorenz1963_d_def getitem_def dsub_def to_double_def)
  show ?thesis
    using rk4_xyz_d_zero_step [of systemLorenz1963_d 0 "1 / 10" 0 "[Num 10, Num 28, Num (8 / 3)]"
        1 "- (1 / 10)" 0] f overflow_bound_gt_100
    by simp
qed

text \<open>
  C7 as the specification words it holds for every state and every derivative function.
  At the finite state \<open>(2^600, 2^600, 0)\<close> with the Lorenz field and the parameters
  \<open>(10, 28, 8/3)\<close> the product \<open>xx*yy\<close> overflows to an infinity, \<open>0 * inf\<close> is NaN, and
  the step of size \<open>0\<close> returns NaN in its three components.
\<close>

theorem rk4_xyz_d_zero_step_counterexample:
  "rk4_xyz_d (Num (2 ^ 600)) (Num (2 ^ 600)) (Num 0) (Num 0) systemLorenz1963_d
     [Num 10, Num 28, Num (8 / 3)] = Inr (NaN, NaN, NaN)"
proof -
  have big: "\<bar>2 ^ 600 :: real\<bar> < overflow_bound"
    using big_facts(2) by simp
  have x: "dadd (Num (2 ^ 600)) (ddiv (dmul (Num 0) (Num 0)) (Num 2)) = Num (2 ^ 600)"
    by (rule stage_zero_step(1) [OF big])
  have y: "dadd (Num (2 ^ 600)) (ddiv (dmul (Num 0) (Num (27 * 2 ^ 600))) (Num 2))
      = Num (2 ^ 600)"
    by (rule stage_zero_step(1) [OF big])
  have z: "dadd (Num 0) (ddiv (dmul (Num 0) PosInf) (Num 2)) = NaN"
    by simp
  show ?thesis
    by (simp del: dadd.simps dmul.simps ddiv.simps power_numeral
        add: rk4_xyz_d_def field_at_big field_after_overflow x y z NaN_absorbs)
qed

section \<open>The trajectory\<close>

text \<open>
  C3. For every configuration with step count \<open>N \<ge> 1\<close>, the run completes; the three
  arrays of the trajectory have length \<open>N\<close>; entry \<open>0\<close> is the configured initial state;
  for every index \<open>i\<close> with \<open>1 \<le> i \<le> N - 1\<close>, entry \<open>i\<close> is entry \<open>i - 1\<close> plus the increment
  that \<open>rk4_xyz\<close> returns at entry \<open>i - 1\<close> with the Lorenz field, the parameters and the
  step; and no entry is modified after being written: after any number \<open>k \<le> N - 1\<close> of
  iterations, the entries \<open>0 .. k\<close> written so far already hold their final values.
\<close>

theorem simulate_trajectory_invariant:
  assumes "1 \<le> ntot c"
  shows "\<exists>st. simulate c = Inr st
    \<and> length (xvalues st) = nat (ntot c) \<and> length (yvalues st) = nat (ntot c)
    \<and> length (zvalues st) = nat (ntot c)
    \<and> entry st 0 = (initx c, inity c, initz c)
    \<and> (\<forall>i. 1 \<le> i \<and> i \<le> nat (ntot c) - 1 \<longrightarrow>
          (\<exists>d. rk4_xyz (xvalues st ! (i - 1)) (yvalues st ! (i - 1)) (zvalues st ! (i - 1))
                  (deltat c) systemLorenz1963 [sigma c, smallr c, smallb c] = Inr d
               \<and> entry st i = vadd (entry st (i - 1)) d))
    \<and> (\<forall>k\<le>nat (ntot c) - 1. \<exists>sk. simulate_upto c k = Inr sk
          \<and> (\<forall>i\<le>k. entry sk i = entry st i))"
proof -
  let ?st = "trajectory c"
  have run: "simulate c = Inr ?st"
    using assms by (simp add: simulate_eq)
  have first: "entry ?st 0 = (initx c, inity c, initz c)"
    using assms by (simp add: entry_trajectory)
  have step: "\<exists>d. rk4_xyz (xvalues ?st ! (i - 1)) (yvalues ?st ! (i - 1)) (zvalues ?st ! (i - 1))
                  (deltat c) systemLorenz1963 [sigma c, smallr c, smallb c] = Inr d
               \<and> entry ?st i = vadd (entry ?st (i - 1)) d"
    if i: "1 \<le> i \<and> i \<le> nat (ntot c) - 1" for i
  proof -
    from i obtain j where j: "i = Suc j" "j < nat (ntot c)" "Suc j < nat (ntot c)"
      by (cases i) auto
    have prev: "(xvalues ?st ! j, yvalues ?st ! j, zvalues ?st ! j) = orbit c j"
      using entry_trajectory [OF j(2)] by (simp add: entry_def)
    have "entry ?st (Suc j) = next_state c (orbit c j)"
      using entry_trajectory [OF j(3)] by simp
    then have "entry ?st (Suc j) = vadd (entry ?st j)
        (classic_rk4 (lorenz_field (sigma c, smallr c, smallb c)) (deltat c) (entry ?st j))"
      by (simp add: next_state_def entry_trajectory [OF j(2)])
    then show ?thesis
      by (simp add: j(1) rk4_lorenz entry_def)
  qed
  have once: "\<exists>sk. simulate_upto c k = Inr sk \<and> (\<forall>i\<le>k. entry sk i = entry ?st i)"
    if k: "k \<le> nat (ntot c) - 1" for k
  proof -
    from simulate_upto_tracks [OF assms k]
    obtain sk where sk: "simulate_upto c k = Inr sk" "tracks c k sk"
      by blast
    have "entry sk i = entry ?st i" if "i \<le> k" for i
    proof -
      from that k assms have "i < nat (ntot c)"
        by linarith
      with sk(2) that show ?thesis
        by (simp add: tracks_def entry_trajectory)
    qed
    with sk(1) show ?thesis
      by blast
  qed
  show ?thesis
    using run first step once by (simp add: length_trajectory)
qed

theorem simulate_trajectory_invariant_witness:
  "\<exists>st. simulate notebook_config = Inr st
    \<and> length (xvalues st) = 6113 \<and> length (yvalues st) = 6113 \<and> length (zvalues st) = 6113
    \<and> entry st 0 = (0, 1 / 10, 0)
    \<and> (\<exists>d. rk4_xyz (xvalues st ! 6111) (yvalues st ! 6111) (zvalues st ! 6111)
               (1 / 100) systemLorenz1963 [10, 28, 8 / 3] = Inr d
            \<and> entry st 6112 = vadd (entry st 6111) d)
    \<and> (\<exists>sk. simulate_upto notebook_config 1 = Inr sk \<and> entry sk 1 = entry st 1)"
proof -
  have n: "1 \<le> ntot notebook_config"
    by (simp add: notebook_config_def)
  from simulate_trajectory_invariant [OF n]
  obtain st where st: "simulate notebook_config = Inr st"
    "length (xvalues st) = nat (ntot notebook_config)"
    "length (yvalues st) = nat (ntot notebook_config)"
    "length (zvalues st) = nat (ntot notebook_config)"
    "entry st 0 = (initx notebook_config, inity notebook_config, initz notebook_config)"
    "\<forall>i. 1 \<le> i \<and> i \<le> nat (ntot notebook_config) - 1 \<longrightarrow>
          (\<exists>d. rk4_xyz (xvalues st ! (i - 1)) (yvalues st ! (i - 1)) (zvalues st ! (i - 1))
                  (deltat notebook_config) systemLorenz1963
                  [sigma notebook_config, smallr notebook_config, smallb notebook_config] = Inr d
               \<and> entry st i = vadd (entry st (i - 1)) d)"
    "\<forall>k\<le>nat (ntot notebook_config) - 1. \<exists>sk. simulate_upto notebook_config k = Inr sk
          \<and> (\<forall>i\<le>k. entry sk i = entry st i)"
    by blast
  from st(6) have "1 \<le> (6112::nat) \<and> 6112 \<le> nat (ntot notebook_config) - 1 \<longrightarrow>
      (\<exists>d. rk4_xyz (xvalues st ! (6112 - 1)) (yvalues st ! (6112 - 1)) (zvalues st ! (6112 - 1))
                  (deltat notebook_config) systemLorenz1963
                  [sigma notebook_config, smallr notebook_config, smallb notebook_config] = Inr d
               \<and> entry st 6112 = vadd (entry st (6112 - 1)) d)"
    by (rule spec)
  then have a: "\<exists>d. rk4_xyz (xvalues st ! 6111) (yvalues st ! 6111) (zvalues st ! 6111)
               (1 / 100) systemLorenz1963 [10, 28, 8 / 3] = Inr d
            \<and> entry st 6112 = vadd (entry st 6111) d"
    by (simp add: notebook_config_def)
  from st(7) have "\<exists>sk. simulate_upto notebook_config 1 = Inr sk
          \<and> (\<forall>i\<le>1. entry sk i = entry st i)"
    by (simp add: notebook_config_def)
  then have b: "\<exists>sk. simulate_upto notebook_config 1 = Inr sk \<and> entry sk 1 = entry st 1"
    by auto
  from st(1-5) a b show ?thesis
    by (simp add: notebook_config_def)
qed

text \<open>
  C8. With step count \<open>N = 1\<close>, whatever the step size, the initial state and the
  parameters, the completed trajectory has exactly one entry, the initial state, and the
  sequence of relative maxima of its Z-component is empty.
\<close>

theorem simulate_single_entry:
  "simulate (c\<lparr>ntot := 1\<rparr>)
     = Inr \<lparr>xvalues = [initx c], yvalues = [inity c], zvalues = [initz c]\<rparr>
   \<and> and_then (simulate (c\<lparr>ntot := 1\<rparr>)) (\<lambda>st. relMaxZ 1 (zvalues st)) = Inr []"
  by (simp add: simulate_def initial_conditions_def np_zeros_def py_range_def relMaxZ_def)

text \<open>
  C10. The Lorenz field and the Runge-Kutta step with it commute with the mirror
  symmetry \<open>(x, y, z) \<mapsto> (-x, -y, z)\<close>, and so does the run: started from
  \<open>(-x0, -y0, z0)\<close> it ends as the run started from \<open>(x0, y0, z0)\<close> does, and its
  trajectory is the mirror image, entry by entry, of the other.
\<close>

theorem simulate_mirror:
  "systemLorenz1963 (- x) (- y) z [\<sigma>, r, b]
     = map_sum id mirror (systemLorenz1963 x y z [\<sigma>, r, b])
   \<and> rk4_xyz (- x) (- y) z h systemLorenz1963 [\<sigma>, r, b]
     = map_sum id mirror (rk4_xyz x y z h systemLorenz1963 [\<sigma>, r, b])
   \<and> simulate (mirror_config c) = map_sum id mirror_arrays (simulate c)"
proof -
  have "systemLorenz1963 (- x) (- y) z [\<sigma>, r, b]
     = map_sum id mirror (systemLorenz1963 x y z [\<sigma>, r, b])"
    by (simp add: systemLorenz1963_triple mirror_def)
  moreover have "rk4_xyz (- x) (- y) z h systemLorenz1963 [\<sigma>, r, b]
     = map_sum id mirror (rk4_xyz x y z h systemLorenz1963 [\<sigma>, r, b])"
  proof -
    have "classic_rk4 (lorenz_field (\<sigma>, r, b)) h (mirror (x, y, z))
        = mirror (classic_rk4 (lorenz_field (\<sigma>, r, b)) h (x, y, z))"
      by (rule classic_rk4_mirror) (rule lorenz_field_mirror)
    moreover have "mirror (x, y, z) = (- x, - y, z)"
      by (simp add: mirror_def)
    ultimately show ?thesis
      by (simp add: rk4_lorenz)
  qed
  moreover have "simulate (mirror_config c) = map_sum id mirror_arrays (simulate c)"
  proof -
    have "ntot (mirror_config c) = ntot c"
      by (simp add: mirror_config_def)
    then show ?thesis
      by (simp add: simulate_eq trajectory_mirror)
  qed
  ultimately show ?thesis
    by blast
qed

section \<open>Invalid configurations\<close>



section \<open>Relative maxima\<close>

text \<open>
  C4. For every sequence \<open>V\<close> of length \<open>N\<close>, the extraction returns, by ascending
  index, the values \<open>V[i]\<close> at the interior indices \<open>1 \<le> i \<le> N - 2\<close> with \<open>V[i] > V[i-1]\<close>
  and \<open>V[i] > V[i+1]\<close>, and raises no exception; sequences of fewer than three elements
  give the empty sequence. \<open>[1,3,2,5,4]\<close> gives \<open>[3,5]\<close>; \<open>[1,2,3]\<close>, \<open>[5,1,5]\<close>, \<open>[]\<close>
  and a single element give \<open>[]\<close>.
\<close>

theorem relMaxZ_strict_local_maxima:
  "relMaxZ (int (length V)) V = Inr (strict_local_maxima V)
   \<and> relMaxZ 0 [] = Inr [] \<and> relMaxZ 1 [v] = Inr [] \<and> relMaxZ 2 [v, w] = Inr []
   \<and> relMaxZ 5 [1, 3, 2, 5, 4] = Inr [3, 5]
   \<and> relMaxZ 3 [1, 2, 3] = Inr []
   \<and> relMaxZ 3 [5, 1, 5] = Inr []"
proof -
  have "relMaxZ 5 [1, 3, 2, 5, 4] = Inr [3, 5]"
    by (simp add: relMaxZ_def py_range_def upt_rec)
  moreover have "relMaxZ 3 [1, 2, 3] = Inr []" "relMaxZ 3 [5, 1, 5] = Inr []"
    by (simp_all add: relMaxZ_def py_range_def upt_rec)
  moreover have "relMaxZ 0 [] = Inr []" "relMaxZ 1 [v] = Inr []" "relMaxZ 2 [v, w] = Inr []"
    by (simp_all add: relMaxZ_def py_range_def)
  ultimately show ?thesis
    using relMaxZ_eq [of V] by simp
qed

end
